theory Spec2Isabelle
  imports Complex_Main
begin

section \<open>The profiling notebook \<open>jit_profiling.ipynb\<close>\<close>

text \<open>
  The notebook is a linear script of seven code cells. It builds two arrays, multiplies
  them three times (directly, through a fresh \<open>jax.jit\<close> wrapper, and through the same
  wrapper again) and prints the wall-clock time and the change in resident memory of each
  multiplication.

  Everything the script does to the outside world is an entry of a trace: garbage
  collection, a reading of the resident set size, a reading of \<open>time.time()\<close>, a call of
  the multiplied function, the wait for its result, a \<open>print\<close>. What the outside world
  answers is the environment: the successive clock readings, the successive
  resident-set sizes, the platform name, and the failures the framework raises.
\<close>

subsection \<open>Arrays of the framework\<close>

text \<open>
  The only arrays of the script are two-dimensional \<open>float32\<close> arrays whose entries are
  whole numbers, so an entry is an \<open>int\<close>. On whole numbers, \<open>float32\<close> arithmetic is the
  exact result rounded to 24 significant bits, ties to even; whole numbers of magnitude at
  most \<open>2 ^ 24\<close> are not changed by it. \<open>f32_round\<close> is that rounding for magnitudes
  inside the finite range of \<open>float32\<close>, which ends near \<open>2 ^ 128\<close>; \<open>bitlen\<close> is the
  number of binary digits of a positive whole number.
\<close>

datatype dtype = Float32

record ndarray =
  shape :: "nat \<times> nat"
  dtype :: dtype
  elems :: "int list list"

function bitlen :: "int \<Rightarrow> nat" where
  "bitlen n = (if n \<le> 0 then 0 else Suc (bitlen (n div 2)))"
  by auto
termination
  by (relation "measure nat") auto

declare bitlen.simps [simp del]

definition f32_round :: "int \<Rightarrow> int" where
  "f32_round n =
     (if \<bar>n\<bar> \<le> 2 ^ 24 then n
      else
        (let a = \<bar>n\<bar>;
             e = bitlen a - 24;
             q = a div 2 ^ e;
             r = a mod 2 ^ e;
             h = 2 ^ (e - 1);
             q' = (if h < r \<or> (r = h \<and> odd q) then q + 1 else q)
         in sgn n * (q' * 2 ^ e)))"

definition f32_add :: "int \<Rightarrow> int \<Rightarrow> int" where
  "f32_add a b = f32_round (a + b)"

definition f32_mul :: "int \<Rightarrow> int \<Rightarrow> int" where
  "f32_mul a b = f32_round (a * b)"

datatype error = TypeError | XlaRuntimeError string

text \<open>\<open>jnp.ones((r, c), dtype=dt)\<close>.\<close>

definition jnp_ones :: "nat \<times> nat \<Rightarrow> dtype \<Rightarrow> ndarray" where
  "jnp_ones sh dt =
     \<lparr>shape = sh, dtype = dt, elems = replicate (fst sh) (replicate (snd sh) 1)\<rparr>"

text \<open>
  \<open>jnp.dot(a, b)\<close> on two-dimensional arrays: the matrix product, every entry the sum of
  the products of a row of \<open>a\<close> and a column of \<open>b\<close>, accumulated in \<open>float32\<close>. Operands
  whose inner dimensions differ raise \<open>TypeError\<close>.
\<close>

definition dot_row :: "int list \<Rightarrow> int list \<Rightarrow> int" where
  "dot_row row col = foldl (\<lambda>acc (a, b). f32_add acc (f32_mul a b)) 0 (zip row col)"

definition column :: "int list list \<Rightarrow> nat \<Rightarrow> int list" where
  "column rows j = map (\<lambda>r. r ! j) rows"

definition jnp_dot :: "ndarray \<Rightarrow> ndarray \<Rightarrow> error + ndarray" where
  "jnp_dot a b =
     (if snd (shape a) = fst (shape b)
      then Inr \<lparr>shape = (fst (shape a), snd (shape b)),
                dtype = Float32,
                elems = map (\<lambda>row. map (\<lambda>j. dot_row row (column (elems b) j))
                                         [0..<snd (shape b)])
                            (elems a)\<rparr>
      else Inl TypeError)"

subsection \<open>Environment, trace and world\<close>

text \<open>
  The callables of the script: \<open>matmul\<close>, and what \<open>jax.jit\<close> returns for a callable.
  An argument of \<open>print\<close> is a string or a number.
\<close>

datatype fn = Matmul | Jit fn

datatype pval = Str string | Num real

datatype event =
    Print "pval list"
  | JnpOnes "nat \<times> nat" dtype
  | GcCollect
  | SampleRss nat
  | SampleClock real
  | JaxJit fn
  | Invoke fn ndarray ndarray
  | BlockUntilReady
  | Display "string list"

text \<open>
  \<open>clock env k\<close> is what the \<open>k\<close>-th call of \<open>time.time()\<close> returns (seconds, a Python
  float, here a real), \<open>rss env k\<close> what the \<open>k\<close>-th reading of
  \<open>process.memory_info().rss\<close> returns (bytes), \<open>fault env k\<close> the failure the \<open>k\<close>-th
  operation of the framework (a call of the multiplied function, or a wait for its
  result) ends with, if it fails.
\<close>

record env =
  clock :: "nat \<Rightarrow> real"
  rss :: "nat \<Rightarrow> nat"
  platform :: string
  fault :: "nat \<Rightarrow> error option"

record world =
  clock_reads :: nat
  rss_reads :: nat
  ops :: nat
  trace :: "event list"

definition init_world :: world where
  "init_world = \<lparr>clock_reads = 0, rss_reads = 0, ops = 0, trace = []\<rparr>"

definition emit :: "event \<Rightarrow> world \<Rightarrow> world" where
  "emit e w = w\<lparr>trace := trace w @ [e]\<rparr>"

text \<open>\<open>print(a, b, ...)\<close> writes its arguments, separated by blanks, as one line.\<close>

definition print_line :: "pval list \<Rightarrow> world \<Rightarrow> world" where
  "print_line items w = emit (Print items) w"

definition gc_collect :: "world \<Rightarrow> world" where
  "gc_collect w = emit GcCollect w"

definition time_time :: "env \<Rightarrow> world \<Rightarrow> real \<times> world" where
  "time_time env w =
     (let t = clock env (clock_reads w)
      in (t, emit (SampleClock t) (w\<lparr>clock_reads := clock_reads w + 1\<rparr>)))"

text \<open>
  Cell 2:
  \<^verbatim>\<open>
  def get_memory_usage_mb():
      process = psutil.Process(os.getpid())
      return process.memory_info().rss / 1024 / 1024  # in MB
  \<close>
  The two divisions are Python's true division. Dividing by a power of two is exact in
  binary floating point, and so is the difference of two such quotients for resident
  sizes below \<open>2 ^ 53\<close> bytes, so the reals here are the floats of the script.
\<close>

definition get_memory_usage_mb :: "env \<Rightarrow> world \<Rightarrow> real \<times> world" where
  "get_memory_usage_mb env w =
     (let b = rss env (rss_reads w)
      in (real b / 1024 / 1024, emit (SampleRss b) (w\<lparr>rss_reads := rss_reads w + 1\<rparr>)))"

text \<open>
  Cell 3:
  \<^verbatim>\<open>
  def matmul(x, y):
      return jnp.dot(x, y)
  size = 2048
  x = jnp.ones((size, size), dtype=jnp.float32)
  y = jnp.ones((size, size), dtype=jnp.float32)
  \<close>
\<close>

definition matmul :: "ndarray \<Rightarrow> ndarray \<Rightarrow> error + ndarray" where
  "matmul x y = jnp_dot x y"

definition size_c :: nat where
  "size_c = 2048"

text \<open>
  \<open>jax.jit(f)\<close> builds a wrapper and does nothing else; a call of the wrapper computes
  what \<open>f\<close> computes. That a wrapper returns the value of the function it wraps is the
  meaning of \<open>jax.jit\<close> taken here; how and when the framework compiles is not part of
  the model.
\<close>

definition jax_jit :: "fn \<Rightarrow> world \<Rightarrow> fn \<times> world" where
  "jax_jit f w = (Jit f, emit (JaxJit f) w)"

fun apply_fn :: "fn \<Rightarrow> ndarray \<Rightarrow> ndarray \<Rightarrow> error + ndarray" where
  "apply_fn Matmul x y = matmul x y"
| "apply_fn (Jit f) x y = apply_fn f x y"

text \<open>A call \<open>f(x, y)\<close> of the framework, and \<open>.block_until_ready()\<close> on its result.\<close>

definition call :: "env \<Rightarrow> fn \<Rightarrow> ndarray \<Rightarrow> ndarray \<Rightarrow> world \<Rightarrow> (error + ndarray) \<times> world" where
  "call env f x y w =
     (let w' = emit (Invoke f x y) (w\<lparr>ops := ops w + 1\<rparr>)
      in case fault env (ops w) of
           Some e \<Rightarrow> (Inl e, w')
         | None \<Rightarrow> (apply_fn f x y, w'))"

definition block_until_ready :: "env \<Rightarrow> ndarray \<Rightarrow> world \<Rightarrow> (error + ndarray) \<times> world" where
  "block_until_ready env a w =
     (let w' = emit BlockUntilReady (w\<lparr>ops := ops w + 1\<rparr>)
      in case fault env (ops w) of
           Some e \<Rightarrow> (Inl e, w')
         | None \<Rightarrow> (Inr a, w'))"

subsection \<open>The cells\<close>

text \<open>Cell 1: \<^verbatim>\<open>print("JAX Device:", jax.extend.backend.get_backend().platform)\<close>\<close>

definition cell1 :: "env \<Rightarrow> world \<Rightarrow> world" where
  "cell1 env w = print_line [Str ''JAX Device:'', Str (platform env)] w"

definition cell3 :: "world \<Rightarrow> ndarray \<times> ndarray \<times> world" where
  "cell3 w =
     (let x = jnp_ones (size_c, size_c) Float32;
          w1 = emit (JnpOnes (size_c, size_c) Float32) w;
          y = jnp_ones (size_c, size_c) Float32;
          w2 = emit (JnpOnes (size_c, size_c) Float32) w1
      in (x, y, w2))"

text \<open>
  Cell 4:
  \<^verbatim>\<open>
  gc.collect()
  start_mem = get_memory_usage_mb()
  start_time = time.time()
  out = matmul(x, y).block_until_ready()
  end_time = time.time()
  end_mem = get_memory_usage_mb()
  print("Un-JITed Execution Time:", end_time - start_time, "seconds")
  print("Memory Usage:", end_mem - start_mem, "MB")
  \<close>
\<close>

definition cell4 :: "env \<Rightarrow> ndarray \<Rightarrow> ndarray \<Rightarrow> world \<Rightarrow> (error + ndarray) \<times> world" where
  "cell4 env x y w0 =
     (let w1 = gc_collect w0;
          (start_mem, w2) = get_memory_usage_mb env w1;
          (start_time, w3) = time_time env w2;
          (r, w4) = call env Matmul x y w3
      in case r of
           Inl e \<Rightarrow> (Inl e, w4)
         | Inr p \<Rightarrow>
             (let (r', w5) = block_until_ready env p w4
              in case r' of
                   Inl e \<Rightarrow> (Inl e, w5)
                 | Inr out \<Rightarrow>
                     (let (end_time, w6) = time_time env w5;
                          (end_mem, w7) = get_memory_usage_mb env w6;
                          w8 = print_line [Str ''Un-JITed Execution Time:'',
                                           Num (end_time - start_time), Str ''seconds''] w7;
                          w9 = print_line [Str ''Memory Usage:'',
                                           Num (end_mem - start_mem), Str ''MB''] w8
                      in (Inr out, w9))))"

text \<open>
  Cell 5 is cell 4 with \<^verbatim>\<open>jit_matmul = jax.jit(matmul)\<close> after \<open>gc.collect()\<close>, the call
  \<^verbatim>\<open>jit_matmul(x, y)\<close> and the label \<open>JITed (First Call) Execution Time:\<close>. The wrapper
  stays bound to \<open>jit_matmul\<close> for cell 6.
\<close>

definition cell5 :: "env \<Rightarrow> ndarray \<Rightarrow> ndarray \<Rightarrow> world \<Rightarrow> (error + fn \<times> ndarray) \<times> world" where
  "cell5 env x y w0 =
     (let w1 = gc_collect w0;
          (jit_matmul, w1') = jax_jit Matmul w1;
          (start_mem, w2) = get_memory_usage_mb env w1';
          (start_time, w3) = time_time env w2;
          (r, w4) = call env jit_matmul x y w3
      in case r of
           Inl e \<Rightarrow> (Inl e, w4)
         | Inr p \<Rightarrow>
             (let (r', w5) = block_until_ready env p w4
              in case r' of
                   Inl e \<Rightarrow> (Inl e, w5)
                 | Inr out \<Rightarrow>
                     (let (end_time, w6) = time_time env w5;
                          (end_mem, w7) = get_memory_usage_mb env w6;
                          w8 = print_line [Str ''JITed (First Call) Execution Time:'',
                                           Num (end_time - start_time), Str ''seconds''] w7;
                          w9 = print_line [Str ''Memory Usage:'',
                                           Num (end_mem - start_mem), Str ''MB''] w8
                      in (Inr (jit_matmul, out), w9))))"

text \<open>
  Cell 6 is cell 4 with the call \<^verbatim>\<open>jit_matmul(x, y)\<close> and the label
  \<open>JITed (Second Call) Execution Time:\<close>.
\<close>

definition cell6 :: "env \<Rightarrow> fn \<Rightarrow> ndarray \<Rightarrow> ndarray \<Rightarrow> world \<Rightarrow> (error + ndarray) \<times> world" where
  "cell6 env jit_matmul x y w0 =
     (let w1 = gc_collect w0;
          (start_mem, w2) = get_memory_usage_mb env w1;
          (start_time, w3) = time_time env w2;
          (r, w4) = call env jit_matmul x y w3
      in case r of
           Inl e \<Rightarrow> (Inl e, w4)
         | Inr p \<Rightarrow>
             (let (r', w5) = block_until_ready env p w4
              in case r' of
                   Inl e \<Rightarrow> (Inl e, w5)
                 | Inr out \<Rightarrow>
                     (let (end_time, w6) = time_time env w5;
                          (end_mem, w7) = get_memory_usage_mb env w6;
                          w8 = print_line [Str ''JITed (Second Call) Execution Time:'',
                                           Num (end_time - start_time), Str ''seconds''] w7;
                          w9 = print_line [Str ''Memory Usage:'',
                                           Num (end_mem - start_mem), Str ''MB''] w8
                      in (Inr out, w9))))"

text \<open>
  Cell 7 ends with the expression \<^verbatim>\<open>Markdown("""...""")\<close>: the notebook shows its value as
  the cell's result; nothing is written to standard output. The text is kept line by line
  (its two pictographs, which are not ASCII, are left out).
\<close>

definition interpretation_md :: "string list" where
  "interpretation_md =
     ['''',
      ''### Interpretation'',
      '''',
      ''- **First JIT Run** shows **high latency** due to compilation.'',
      ''- **Second JIT Run** is **significantly faster**, demonstrating `jit`'s value for repeated execution.'',
      ''- Memory usage differences can vary by platform (TPU vs GPU vs CPU) and compilation artifacts.'',
      '''',
      ''**Tip**: Use `jax.jit` only for functions that run multiple times to amortize compilation cost.'']"

definition cell7 :: "world \<Rightarrow> world" where
  "cell7 w = emit (Display interpretation_md) w"

subsection \<open>The run of the whole notebook\<close>

text \<open>
  The cells run top to bottom; a cell that raises ends the run. \<open>raised\<close> is the failure the
  run ended with, \<open>outs\<close> the values bound to \<open>out\<close> in turn, \<open>final\<close> the world at the end.
\<close>

record outcome =
  raised :: "error option"
  outs :: "ndarray list"
  final :: world

definition run :: "env \<Rightarrow> outcome" where
  "run env =
     (let w1 = cell1 env init_world;
          (x, y, w3) = cell3 w1;
          (r4, w4) = cell4 env x y w3
      in case r4 of
           Inl e \<Rightarrow> \<lparr>raised = Some e, outs = [], final = w4\<rparr>
         | Inr out4 \<Rightarrow>
             (let (r5, w5) = cell5 env x y w4
              in case r5 of
                   Inl e \<Rightarrow> \<lparr>raised = Some e, outs = [out4], final = w5\<rparr>
                 | Inr (jit_matmul, out5) \<Rightarrow>
                     (let (r6, w6) = cell6 env jit_matmul x y w5
                      in case r6 of
                           Inl e \<Rightarrow> \<lparr>raised = Some e, outs = [out4, out5], final = w6\<rparr>
                         | Inr out6 \<Rightarrow>
                             \<lparr>raised = None, outs = [out4, out5, out6], final = cell7 w6\<rparr>)))"

text \<open>What a run wrote to standard output: the lines of its \<open>print\<close> calls, in order.\<close>

fun stdout_of :: "event list \<Rightarrow> pval list list" where
  "stdout_of [] = []"
| "stdout_of (Print l # es) = l # stdout_of es"
| "stdout_of (_ # es) = stdout_of es"

definition stdout :: "outcome \<Rightarrow> pval list list" where
  "stdout r = stdout_of (trace (final r))"

subsection \<open>Notions used to state the properties\<close>

text \<open>
  The steps of one measurement after the garbage collection, with \<open>ci\<close> and \<open>ri\<close> the
  numbers of clock and memory readings taken before it: the memory reading, the clock
  reading, the call, the wait for the result, the second clock reading, the second memory
  reading, and the two printed lines with the two differences.
\<close>

definition measured_steps ::
  "env \<Rightarrow> nat \<Rightarrow> nat \<Rightarrow> fn \<Rightarrow> ndarray \<Rightarrow> ndarray \<Rightarrow> string \<Rightarrow> event list" where
  "measured_steps env ci ri f x y label =
     [SampleRss (rss env ri),
      SampleClock (clock env ci),
      Invoke f x y,
      BlockUntilReady,
      SampleClock (clock env (ci + 1)),
      SampleRss (rss env (ri + 1)),
      Print [Str label, Num (clock env (ci + 1) - clock env ci), Str ''seconds''],
      Print [Str ''Memory Usage:'',
             Num (real (rss env (ri + 1)) / 1024 / 1024 - real (rss env ri) / 1024 / 1024),
             Str ''MB'']]"

text \<open>The steps of a measurement whose call fails.\<close>

definition attempt_steps :: "env \<Rightarrow> nat \<Rightarrow> nat \<Rightarrow> fn \<Rightarrow> ndarray \<Rightarrow> ndarray \<Rightarrow> event list" where
  "attempt_steps env ci ri f x y =
     [SampleRss (rss env ri), SampleClock (clock env ci), Invoke f x y]"

text \<open>
  A run makes six operations of the framework: three calls, each followed by the wait
  for its result. \<open>no_fault\<close>: none of them fails.
\<close>

definition no_fault :: "env \<Rightarrow> bool" where
  "no_fault env =
     (fault env 0 = None \<and> fault env 1 = None \<and> fault env 2 = None \<and>
      fault env 3 = None \<and> fault env 4 = None \<and> fault env 5 = None)"

text \<open>The value of \<open>x\<close> and of \<open>y\<close>, and their product.\<close>

definition ones_input :: ndarray where
  "ones_input = jnp_ones (size_c, size_c) Float32"

definition ones_product :: ndarray where
  "ones_product =
     \<lparr>shape = (size_c, size_c), dtype = Float32,
      elems = replicate size_c (replicate size_c (int size_c))\<rparr>"

text \<open>What cells 1 and 3 leave in the trace.\<close>

definition prologue :: "env \<Rightarrow> event list" where
  "prologue env =
     [Print [Str ''JAX Device:'', Str (platform env)],
      JnpOnes (size_c, size_c) Float32, JnpOnes (size_c, size_c) Float32]"

text \<open>The seven lines a run without failure prints.\<close>

definition expected_stdout :: "env \<Rightarrow> pval list list" where
  "expected_stdout env =
     [[Str ''JAX Device:'', Str (platform env)],
      [Str ''Un-JITed Execution Time:'', Num (clock env 1 - clock env 0), Str ''seconds''],
      [Str ''Memory Usage:'',
       Num (real (rss env 1) / 1024 / 1024 - real (rss env 0) / 1024 / 1024), Str ''MB''],
      [Str ''JITed (First Call) Execution Time:'', Num (clock env 3 - clock env 2),
       Str ''seconds''],
      [Str ''Memory Usage:'',
       Num (real (rss env 3) / 1024 / 1024 - real (rss env 2) / 1024 / 1024), Str ''MB''],
      [Str ''JITed (Second Call) Execution Time:'', Num (clock env 5 - clock env 4),
       Str ''seconds''],
      [Str ''Memory Usage:'',
       Num (real (rss env 5) / 1024 / 1024 - real (rss env 4) / 1024 / 1024), Str ''MB'']]"

text \<open>
  The numbers a run printed with a given unit: \<open>reported ''seconds''\<close> the elapsed times,
  \<open>reported ''MB''\<close> the memory figures.
\<close>

fun reading :: "string \<Rightarrow> pval list \<Rightarrow> real option" where
  "reading u [Str l, Num v, Str u'] = (if u' = u then Some v else None)"
| "reading u _ = None"

definition reported :: "string \<Rightarrow> outcome \<Rightarrow> real list" where
  "reported u r = List.map_filter (reading u) (stdout r)"

fun is_invoke :: "event \<Rightarrow> bool" where
  "is_invoke (Invoke f x y) = True"
| "is_invoke _ = False"

fun is_ones :: "event \<Rightarrow> bool" where
  "is_ones (JnpOnes sh dt) = True"
| "is_ones _ = False"

fun benchmark_step :: "event \<Rightarrow> bool" where
  "benchmark_step (Print l) = True"
| "benchmark_step (JaxJit f) = True"
| "benchmark_step (Invoke f x y) = True"
| "benchmark_step _ = False"

text \<open>
  A sum of \<open>float32\<close> numbers added in any order: the backend of \<open>jnp.dot\<close> is free to
  add the products of a row and a column in blocks.
\<close>

datatype sum_tree = Term int | Plus sum_tree sum_tree

fun f32_sum :: "sum_tree \<Rightarrow> int" where
  "f32_sum (Term a) = a"
| "f32_sum (Plus l r) = f32_add (f32_sum l) (f32_sum r)"

fun terms :: "sum_tree \<Rightarrow> int list" where
  "terms (Term a) = [a]"
| "terms (Plus l r) = terms l @ terms r"

subsection \<open>Environments\<close>

text \<open>
  \<open>demo_env\<close>: a clock that advances by a sixteenth of a second between readings, a
  process that grows by 20 MiB between readings, no failure. \<open>set_back_env\<close>: the same with
  a system clock set back by a minute after the first reading. \<open>shrinking_env\<close>: the same
  with a resident set that is 1 MiB smaller at the end of each measurement than at its
  start. \<open>failing_env\<close>: the same with the first call through the wrapper failing.
\<close>

definition demo_env :: env where
  "demo_env = \<lparr>clock = (\<lambda>k. 1000 + real k / 16),
               rss = (\<lambda>k. 1048576 * (200 + 20 * k)),
               platform = ''cpu'',
               fault = (\<lambda>k. None)\<rparr>"

definition set_back_env :: env where
  "set_back_env = \<lparr>clock = (\<lambda>k. if k = 0 then 100 else 40 + real k),
                   rss = (\<lambda>k. 1048576 * (200 + 20 * k)),
                   platform = ''cpu'',
                   fault = (\<lambda>k. None)\<rparr>"

definition shrinking_env :: env where
  "shrinking_env = \<lparr>clock = (\<lambda>k. 1000 + real k / 16),
                    rss = (\<lambda>k. if even k then 314572800 else 313524224),
                    platform = ''cpu'',
                    fault = (\<lambda>k. None)\<rparr>"

definition failing_env :: env where
  "failing_env =
     \<lparr>clock = (\<lambda>k. 1000 + real k / 16),
      rss = (\<lambda>k. 1048576 * (200 + 20 * k)),
      platform = ''cpu'',
      fault = (\<lambda>k. if k = 2 then Some (XlaRuntimeError ''RESOURCE_EXHAUSTED'') else None)\<rparr>"

section \<open>Properties\<close>

subsection \<open>The product of the two arrays\<close>

lemma f32_round_exact: "\<bar>n\<bar> \<le> 2 ^ 24 \<Longrightarrow> f32_round n = n"
  by (simp add: f32_round_def)

lemma dot_ones_acc:
  "0 \<le> acc \<Longrightarrow> acc + int k \<le> 2 ^ 24 \<Longrightarrow>
   foldl (\<lambda>acc (a, b). f32_add acc (f32_mul a b)) acc (zip (replicate k 1) (replicate k 1))
     = acc + int k"
proof (induction k arbitrary: acc)
  case 0
  then show ?case by simp
next
  case (Suc k)
  have one: "f32_mul 1 1 = 1"
    by (simp add: f32_mul_def f32_round_def)
  have step: "f32_add acc 1 = acc + 1"
    using Suc.prems by (simp add: f32_add_def f32_round_exact)
  have "foldl (\<lambda>acc (a, b). f32_add acc (f32_mul a b)) (acc + 1)
          (zip (replicate k 1) (replicate k 1)) = (acc + 1) + int k"
    using Suc.prems by (intro Suc.IH) simp_all
  then show ?case
    by (simp add: one step)
qed

lemma dot_row_ones: "k \<le> 2 ^ 24 \<Longrightarrow> dot_row (replicate k 1) (replicate k 1) = int k"
  using dot_ones_acc [of 0 k] by (simp add: dot_row_def)

lemma column_ones: "j < c \<Longrightarrow> column (replicate r (replicate c 1)) j = replicate r 1"
  by (simp add: column_def)

lemma map_const_upt: "(\<And>j. j < n \<Longrightarrow> f j = v) \<Longrightarrow> map f [0..<n] = replicate n v"
  by (simp add: list_eq_iff_nth_eq)

lemma jnp_dot_ones:
  assumes "n \<le> 2 ^ 24"
  shows "jnp_dot (jnp_ones (n, n) Float32) (jnp_ones (n, n) Float32)
           = Inr \<lparr>shape = (n, n), dtype = Float32, elems = replicate n (replicate n (int n))\<rparr>"
proof -
  have row: "map (\<lambda>j. dot_row (replicate n 1) (column (replicate n (replicate n 1)) j)) [0..<n]
               = replicate n (int n)"
  proof (rule map_const_upt)
    fix j assume "j < n"
    then have "column (replicate n (replicate n 1)) j = replicate n 1"
      by (rule column_ones)
    then show "dot_row (replicate n 1) (column (replicate n (replicate n 1)) j) = int n"
      by (simp add: dot_row_ones [OF assms])
  qed
  show ?thesis
    by (simp add: jnp_dot_def jnp_ones_def map_replicate_const row)
qed

lemma matmul_ones_input: "matmul ones_input ones_input = Inr ones_product"
  using jnp_dot_ones [of size_c]
  by (simp add: matmul_def size_c_def ones_input_def ones_product_def)

text \<open>
  The order of the additions does not matter for these operands: a sum of at most
  \<open>2 ^ 24\<close> ones, added in \<open>float32\<close> in any order, is their number.
\<close>

lemma f32_sum_ones:
  "set (terms t) \<subseteq> {1} \<Longrightarrow> length (terms t) \<le> 2 ^ 24 \<Longrightarrow>
   f32_sum t = int (length (terms t))"
proof (induction t)
  case (Term a)
  then show ?case by simp
next
  case (Plus l r)
  then have "f32_sum l = int (length (terms l))" "f32_sum r = int (length (terms r))"
    by simp_all
  moreover have "int (length (terms l)) + int (length (terms r)) \<le> 2 ^ 24"
    using Plus.prems(2) by simp
  ultimately show ?case
    by (simp add: f32_add_def f32_round_def)
qed

subsection \<open>One cell\<close>

lemmas prim_defs =
  emit_def print_line_def gc_collect_def time_time_def get_memory_usage_mb_def
  jax_jit_def call_def block_until_ready_def

lemma cell4_ok:
  assumes "fault env (ops w) = None" "fault env (ops w + 1) = None" "matmul x y = Inr v"
  shows "cell4 env x y w =
    (Inr v,
     \<lparr>clock_reads = clock_reads w + 2, rss_reads = rss_reads w + 2, ops = ops w + 2,
      trace = trace w @ GcCollect #
        measured_steps env (clock_reads w) (rss_reads w) Matmul x y
          ''Un-JITed Execution Time:''\<rparr>)"
  using assms by (simp add: cell4_def prim_defs measured_steps_def Let_def)

lemma cell5_ok:
  assumes "fault env (ops w) = None" "fault env (ops w + 1) = None" "matmul x y = Inr v"
  shows "cell5 env x y w =
    (Inr (Jit Matmul, v),
     \<lparr>clock_reads = clock_reads w + 2, rss_reads = rss_reads w + 2, ops = ops w + 2,
      trace = trace w @ GcCollect # JaxJit Matmul #
        measured_steps env (clock_reads w) (rss_reads w) (Jit Matmul) x y
          ''JITed (First Call) Execution Time:''\<rparr>)"
  using assms by (simp add: cell5_def prim_defs measured_steps_def Let_def)

lemma cell6_ok:
  assumes "fault env (ops w) = None" "fault env (ops w + 1) = None" "apply_fn f x y = Inr v"
  shows "cell6 env f x y w =
    (Inr v,
     \<lparr>clock_reads = clock_reads w + 2, rss_reads = rss_reads w + 2, ops = ops w + 2,
      trace = trace w @ GcCollect #
        measured_steps env (clock_reads w) (rss_reads w) f x y
          ''JITed (Second Call) Execution Time:''\<rparr>)"
  using assms by (simp add: cell6_def prim_defs measured_steps_def Let_def)

lemma cell4_call_fault:
  assumes "fault env (ops w) = Some e"
  shows "cell4 env x y w =
    (Inl e,
     \<lparr>clock_reads = clock_reads w + 1, rss_reads = rss_reads w + 1, ops = ops w + 1,
      trace = trace w @
        GcCollect # attempt_steps env (clock_reads w) (rss_reads w) Matmul x y\<rparr>)"
  using assms by (simp add: cell4_def prim_defs attempt_steps_def Let_def)

lemma cell4_block_fault:
  assumes "fault env (ops w) = None" "fault env (ops w + 1) = Some e" "matmul x y = Inr v"
  shows "cell4 env x y w =
    (Inl e,
     \<lparr>clock_reads = clock_reads w + 1, rss_reads = rss_reads w + 1, ops = ops w + 2,
      trace = trace w @
        GcCollect # attempt_steps env (clock_reads w) (rss_reads w) Matmul x y @
        [BlockUntilReady]\<rparr>)"
  using assms by (simp add: cell4_def prim_defs attempt_steps_def Let_def)

lemma cell5_call_fault:
  assumes "fault env (ops w) = Some e"
  shows "cell5 env x y w =
    (Inl e,
     \<lparr>clock_reads = clock_reads w + 1, rss_reads = rss_reads w + 1, ops = ops w + 1,
      trace = trace w @ GcCollect # JaxJit Matmul #
        attempt_steps env (clock_reads w) (rss_reads w) (Jit Matmul) x y\<rparr>)"
  using assms by (simp add: cell5_def prim_defs attempt_steps_def Let_def)

lemma cell5_block_fault:
  assumes "fault env (ops w) = None" "fault env (ops w + 1) = Some e" "matmul x y = Inr v"
  shows "cell5 env x y w =
    (Inl e,
     \<lparr>clock_reads = clock_reads w + 1, rss_reads = rss_reads w + 1, ops = ops w + 2,
      trace = trace w @ GcCollect # JaxJit Matmul #
        attempt_steps env (clock_reads w) (rss_reads w) (Jit Matmul) x y @
        [BlockUntilReady]\<rparr>)"
  using assms by (simp add: cell5_def prim_defs attempt_steps_def Let_def)

lemma cell6_call_fault:
  assumes "fault env (ops w) = Some e"
  shows "cell6 env f x y w =
    (Inl e,
     \<lparr>clock_reads = clock_reads w + 1, rss_reads = rss_reads w + 1, ops = ops w + 1,
      trace = trace w @
        GcCollect # attempt_steps env (clock_reads w) (rss_reads w) f x y\<rparr>)"
  using assms by (simp add: cell6_def prim_defs attempt_steps_def Let_def)

lemma cell6_block_fault:
  assumes "fault env (ops w) = None" "fault env (ops w + 1) = Some e" "apply_fn f x y = Inr v"
  shows "cell6 env f x y w =
    (Inl e,
     \<lparr>clock_reads = clock_reads w + 1, rss_reads = rss_reads w + 1, ops = ops w + 2,
      trace = trace w @
        GcCollect # attempt_steps env (clock_reads w) (rss_reads w) f x y @
        [BlockUntilReady]\<rparr>)"
  using assms by (simp add: cell6_def prim_defs attempt_steps_def Let_def)

subsection \<open>The whole run\<close>

lemma start_world:
  "cell3 (cell1 env init_world) =
     (ones_input, ones_input,
      \<lparr>clock_reads = 0, rss_reads = 0, ops = 0, trace = prologue env\<rparr>)"
  by (simp add: cell3_def cell1_def init_world_def prim_defs ones_input_def prologue_def
        Let_def)

lemma run_ok:
  assumes "no_fault env"
  shows "run env =
    \<lparr>raised = None, outs = [ones_product, ones_product, ones_product],
     final = \<lparr>clock_reads = 6, rss_reads = 6, ops = 6,
       trace = prologue env @
         GcCollect #
           measured_steps env 0 0 Matmul ones_input ones_input
             ''Un-JITed Execution Time:'' @
         GcCollect # JaxJit Matmul #
           measured_steps env 2 2 (Jit Matmul) ones_input ones_input
             ''JITed (First Call) Execution Time:'' @
         GcCollect #
           measured_steps env 4 4 (Jit Matmul) ones_input ones_input
             ''JITed (Second Call) Execution Time:'' @
         [Display interpretation_md]\<rparr>\<rparr>"
  using assms
  by (simp add: run_def start_world no_fault_def cell4_ok cell5_ok cell6_ok matmul_ones_input
        cell7_def emit_def eval_nat_numeral)

lemma trace_ok:
  "no_fault env \<Longrightarrow> trace (final (run env)) =
     prologue env @
     GcCollect #
       measured_steps env 0 0 Matmul ones_input ones_input ''Un-JITed Execution Time:'' @
     GcCollect # JaxJit Matmul #
       measured_steps env 2 2 (Jit Matmul) ones_input ones_input
         ''JITed (First Call) Execution Time:'' @
     GcCollect #
       measured_steps env 4 4 (Jit Matmul) ones_input ones_input
         ''JITed (Second Call) Execution Time:'' @
     [Display interpretation_md]"
  by (simp add: run_ok)

lemma stdout_ok: "no_fault env \<Longrightarrow> stdout (run env) = expected_stdout env"
  by (simp add: run_ok stdout_def measured_steps_def prologue_def expected_stdout_def
        eval_nat_numeral)

lemma run_fault_0:
  assumes "fault env 0 = Some e"
  shows "run env =
    \<lparr>raised = Some e, outs = [],
     final = \<lparr>clock_reads = 1, rss_reads = 1, ops = 1,
       trace = prologue env @
         GcCollect # attempt_steps env 0 0 Matmul ones_input ones_input\<rparr>\<rparr>"
  using assms
  by (simp add: run_def start_world cell4_call_fault)

lemma run_fault_1:
  assumes "fault env 0 = None" "fault env 1 = Some e"
  shows "run env =
    \<lparr>raised = Some e, outs = [],
     final = \<lparr>clock_reads = 1, rss_reads = 1, ops = 2,
       trace = prologue env @
         GcCollect # attempt_steps env 0 0 Matmul ones_input ones_input @
         [BlockUntilReady]\<rparr>\<rparr>"
  using assms
  by (simp add: run_def start_world cell4_block_fault matmul_ones_input eval_nat_numeral)

lemma run_fault_2:
  assumes "fault env 0 = None" "fault env 1 = None" "fault env 2 = Some e"
  shows "run env =
    \<lparr>raised = Some e, outs = [ones_product],
     final = \<lparr>clock_reads = 3, rss_reads = 3, ops = 3,
       trace = prologue env @
         GcCollect #
           measured_steps env 0 0 Matmul ones_input ones_input
             ''Un-JITed Execution Time:'' @
         GcCollect # JaxJit Matmul #
           attempt_steps env 2 2 (Jit Matmul) ones_input ones_input\<rparr>\<rparr>"
  using assms
  by (simp add: run_def start_world cell4_ok cell5_call_fault matmul_ones_input
        eval_nat_numeral)

lemma run_fault_3:
  assumes "fault env 0 = None" "fault env 1 = None" "fault env 2 = None"
    "fault env 3 = Some e"
  shows "run env =
    \<lparr>raised = Some e, outs = [ones_product],
     final = \<lparr>clock_reads = 3, rss_reads = 3, ops = 4,
       trace = prologue env @
         GcCollect #
           measured_steps env 0 0 Matmul ones_input ones_input
             ''Un-JITed Execution Time:'' @
         GcCollect # JaxJit Matmul #
           attempt_steps env 2 2 (Jit Matmul) ones_input ones_input @
         [BlockUntilReady]\<rparr>\<rparr>"
  using assms
  by (simp add: run_def start_world cell4_ok cell5_block_fault matmul_ones_input
        eval_nat_numeral)

lemma run_fault_4:
  assumes "fault env 0 = None" "fault env 1 = None" "fault env 2 = None"
    "fault env 3 = None" "fault env 4 = Some e"
  shows "run env =
    \<lparr>raised = Some e, outs = [ones_product, ones_product],
     final = \<lparr>clock_reads = 5, rss_reads = 5, ops = 5,
       trace = prologue env @
         GcCollect #
           measured_steps env 0 0 Matmul ones_input ones_input
             ''Un-JITed Execution Time:'' @
         GcCollect # JaxJit Matmul #
           measured_steps env 2 2 (Jit Matmul) ones_input ones_input
             ''JITed (First Call) Execution Time:'' @
         GcCollect # attempt_steps env 4 4 (Jit Matmul) ones_input ones_input\<rparr>\<rparr>"
  using assms
  by (simp add: run_def start_world cell4_ok cell5_ok cell6_call_fault matmul_ones_input
        eval_nat_numeral)

lemma run_fault_5:
  assumes "fault env 0 = None" "fault env 1 = None" "fault env 2 = None"
    "fault env 3 = None" "fault env 4 = None" "fault env 5 = Some e"
  shows "run env =
    \<lparr>raised = Some e, outs = [ones_product, ones_product],
     final = \<lparr>clock_reads = 5, rss_reads = 5, ops = 6,
       trace = prologue env @
         GcCollect #
           measured_steps env 0 0 Matmul ones_input ones_input
             ''Un-JITed Execution Time:'' @
         GcCollect # JaxJit Matmul #
           measured_steps env 2 2 (Jit Matmul) ones_input ones_input
             ''JITed (First Call) Execution Time:'' @
         GcCollect # attempt_steps env 4 4 (Jit Matmul) ones_input ones_input @
         [BlockUntilReady]\<rparr>\<rparr>"
  using assms
  by (simp add: run_def start_world cell4_ok cell5_ok cell6_block_fault matmul_ones_input
        eval_nat_numeral)

lemma no_fault_demo_env: "no_fault demo_env"
  by (simp add: no_fault_def demo_env_def)

section \<open>The claims\<close>

text \<open>
  Claim C3, as stated: every measurement follows exactly the order garbage collection,
  memory reading, reading of a monotonic clock, call and wait, second clock reading,
  second memory reading, report. It fails on two counts. In cell 5 the step after the
  garbage collection is the building of the wrapper, \<open>jax.jit(matmul)\<close>, not the memory
  reading. And the clock read is \<open>time.time()\<close>, the wall clock, which is not monotonic:
  with the system clock set back during the first measurement (\<open>set_back_env\<close>), the
  clock reading taken before the call is 100 and the one taken after the wait is 41.
\<close>

theorem measurement_order_not_as_stated:
  "take 3 (trace (snd (cell5 demo_env (jnp_ones (2048, 2048) Float32)
                         (jnp_ones (2048, 2048) Float32) init_world))) =
     [GcCollect, JaxJit Matmul, SampleRss 209715200]
   \<and> trace (snd (cell4 set_back_env (jnp_ones (2048, 2048) Float32)
                    (jnp_ones (2048, 2048) Float32) init_world)) ! 2 = SampleClock 100
   \<and> trace (snd (cell4 set_back_env (jnp_ones (2048, 2048) Float32)
                    (jnp_ones (2048, 2048) Float32) init_world)) ! 5 = SampleClock 41"
proof -
  have m: "matmul (jnp_ones (2048, 2048) Float32) (jnp_ones (2048, 2048) Float32)
             = Inr ones_product"
    using matmul_ones_input by (simp add: ones_input_def size_c_def)
  have d0: "fault demo_env (ops init_world) = None"
    and d1: "fault demo_env (ops init_world + 1) = None"
    and s0: "fault set_back_env (ops init_world) = None"
    and s1: "fault set_back_env (ops init_world + 1) = None"
    by (simp_all add: demo_env_def set_back_env_def)
  have five: "take 3 (trace (snd (cell5 demo_env (jnp_ones (2048, 2048) Float32)
                         (jnp_ones (2048, 2048) Float32) init_world))) =
     [GcCollect, JaxJit Matmul, SampleRss 209715200]"
    using cell5_ok [OF d0 d1 m]
    by (simp add: measured_steps_def init_world_def demo_env_def)
  have four: "trace (snd (cell4 set_back_env (jnp_ones (2048, 2048) Float32)
                    (jnp_ones (2048, 2048) Float32) init_world)) =
      [GcCollect, SampleRss 209715200, SampleClock 100,
       Invoke Matmul (jnp_ones (2048, 2048) Float32) (jnp_ones (2048, 2048) Float32),
       BlockUntilReady, SampleClock 41, SampleRss 230686720,
       Print [Str ''Un-JITed Execution Time:'', Num (- 59), Str ''seconds''],
       Print [Str ''Memory Usage:'', Num 20, Str ''MB'']]"
    using cell4_ok [OF s0 s1 m]
    by (simp add: measured_steps_def init_world_def set_back_env_def)
  show ?thesis
    by (simp add: five four)
qed

text \<open>
  Claim C3, amended. Every measurement whose call and wait do not fail performs these
  steps in this order: a garbage collection; in the cold measurement of cell 5 only, the
  building of the wrapper; a reading of the resident memory; a reading of the wall clock
  \<open>time.time()\<close>; the call of the function and the wait until its result is ready; a
  second reading of the wall clock; a second reading of the resident memory; and the
  report of the two differences (second clock reading minus first, second memory reading
  minus first). The wait ends before the second readings are taken, so the elapsed time
  reported spans the call and the wait. This holds for each of the three measuring cells,
  from any world and for any clock.
\<close>

theorem measurement_step_order:
  assumes "fault env (ops w) = None" and "fault env (ops w + 1) = None"
    and "matmul x y = Inr v"
  shows "trace (snd (cell4 env x y w)) =
           trace w @ GcCollect #
             measured_steps env (clock_reads w) (rss_reads w) Matmul x y
               ''Un-JITed Execution Time:''
       \<and> trace (snd (cell5 env x y w)) =
           trace w @ GcCollect # JaxJit Matmul #
             measured_steps env (clock_reads w) (rss_reads w) (Jit Matmul) x y
               ''JITed (First Call) Execution Time:''
       \<and> trace (snd (cell6 env (Jit Matmul) x y w)) =
           trace w @ GcCollect #
             measured_steps env (clock_reads w) (rss_reads w) (Jit Matmul) x y
               ''JITed (Second Call) Execution Time:''"
  using assms by (simp add: cell4_ok cell5_ok cell6_ok)

text \<open>
  C3 at the first measurement of a run in \<open>demo_env\<close>, with the arrays of the script: the
  nine steps of cell 4, in order, with their readings.
\<close>

theorem measurement_step_order_witness:
  "fault demo_env (ops init_world) = None \<and> fault demo_env (ops init_world + 1) = None
   \<and> matmul (jnp_ones (2048, 2048) Float32) (jnp_ones (2048, 2048) Float32)
       = Inr \<lparr>shape = (2048, 2048), dtype = Float32,
              elems = replicate 2048 (replicate 2048 2048)\<rparr>
   \<and> trace (snd (cell4 demo_env (jnp_ones (2048, 2048) Float32)
                  (jnp_ones (2048, 2048) Float32) init_world)) =
       [GcCollect, SampleRss 209715200, SampleClock 1000,
        Invoke Matmul (jnp_ones (2048, 2048) Float32) (jnp_ones (2048, 2048) Float32),
        BlockUntilReady, SampleClock (16001 / 16), SampleRss 230686720,
        Print [Str ''Un-JITed Execution Time:'', Num (1 / 16), Str ''seconds''],
        Print [Str ''Memory Usage:'', Num 20, Str ''MB'']]"
proof -
  have f0: "fault demo_env (ops init_world) = None"
    and f1: "fault demo_env (ops init_world + 1) = None"
    by (simp_all add: demo_env_def)
  have m: "matmul (jnp_ones (2048, 2048) Float32) (jnp_ones (2048, 2048) Float32)
             = Inr \<lparr>shape = (2048, 2048), dtype = Float32,
                    elems = replicate 2048 (replicate 2048 2048)\<rparr>"
    using matmul_ones_input by (simp add: ones_input_def ones_product_def size_c_def)
  show ?thesis
    using measurement_step_order [OF f0 f1 m] f0 f1 m
    by (simp add: measured_steps_def init_world_def demo_env_def)
qed

text \<open>
  Claim C4, as stated: the elapsed time a measurement reports is never negative. It
  fails: the clock of the script is \<open>time.time()\<close>, the wall clock, and the difference of
  its two readings is printed as it is. With the system clock set back between the two
  readings of the first measurement (\<open>set_back_env\<close>), the first elapsed time printed is
  negative.
\<close>

theorem elapsed_negative_when_clock_set_back:
  "hd (reported ''seconds'' (run set_back_env)) < 0"
proof -
  have "no_fault set_back_env"
    by (simp add: no_fault_def set_back_env_def)
  then have "stdout (run set_back_env) = expected_stdout set_back_env"
    by (rule stdout_ok)
  then show ?thesis
    by (simp add: reported_def expected_stdout_def set_back_env_def List.map_filter_simps)
qed

text \<open>
  Claim C4, amended: in a run without failure the three elapsed times reported are the
  differences of the two \<open>time.time()\<close> readings of each measurement, second minus first,
  with nothing applied to them; they are all non-negative exactly when in each
  measurement the second reading is not below the first. (The readings are Python
  floats; their difference as floats has the sign of their difference as reals.)
\<close>

theorem elapsed_is_clock_difference:
  assumes "no_fault env"
  shows "reported ''seconds'' (run env) =
           [clock env 1 - clock env 0, clock env 3 - clock env 2, clock env 5 - clock env 4]
       \<and> ((\<forall>t \<in> set (reported ''seconds'' (run env)). 0 \<le> t) \<longleftrightarrow>
            clock env 0 \<le> clock env 1 \<and> clock env 2 \<le> clock env 3 \<and>
            clock env 4 \<le> clock env 5)"
proof -
  have "reported ''seconds'' (run env) =
          [clock env 1 - clock env 0, clock env 3 - clock env 2, clock env 5 - clock env 4]"
    using stdout_ok [OF assms]
    by (simp add: reported_def expected_stdout_def List.map_filter_simps)
  then show ?thesis by simp
qed

text \<open>
  C4 amended, at a steady clock (\<open>demo_env\<close>) and at a clock set back (\<open>set_back_env\<close>).
\<close>

theorem elapsed_is_clock_difference_witness:
  "no_fault demo_env
   \<and> reported ''seconds'' (run demo_env) = [1 / 16, 1 / 16, 1 / 16]
   \<and> reported ''seconds'' (run set_back_env) = [- 59, 1, 1]"
proof -
  have d: "no_fault demo_env" and s: "no_fault set_back_env"
    by (simp_all add: no_fault_def demo_env_def set_back_env_def)
  show ?thesis
    using elapsed_is_clock_difference [OF d] elapsed_is_clock_difference [OF s] d
    by (simp add: demo_env_def set_back_env_def)
qed

text \<open>
  Claim C6. A run without failure makes exactly three calls of the multiplied function,
  in this order: the function itself; the wrapper, which is built only after the two
  lines of the first measurement are printed; the same wrapper again, with the same
  arguments. Each call is followed by its pair of printed lines, the elapsed time and the
  memory difference. (The list is the trace restricted to the prints, the building of
  the wrapper and the calls.)
\<close>

theorem three_measurements_in_order:
  assumes "no_fault env"
  shows "filter benchmark_step (trace (final (run env))) =
    [Print [Str ''JAX Device:'', Str (platform env)],
     Invoke Matmul (jnp_ones (2048, 2048) Float32) (jnp_ones (2048, 2048) Float32),
     Print [Str ''Un-JITed Execution Time:'', Num (clock env 1 - clock env 0), Str ''seconds''],
     Print [Str ''Memory Usage:'',
            Num (real (rss env 1) / 1024 / 1024 - real (rss env 0) / 1024 / 1024), Str ''MB''],
     JaxJit Matmul,
     Invoke (Jit Matmul) (jnp_ones (2048, 2048) Float32) (jnp_ones (2048, 2048) Float32),
     Print [Str ''JITed (First Call) Execution Time:'', Num (clock env 3 - clock env 2),
            Str ''seconds''],
     Print [Str ''Memory Usage:'',
            Num (real (rss env 3) / 1024 / 1024 - real (rss env 2) / 1024 / 1024), Str ''MB''],
     Invoke (Jit Matmul) (jnp_ones (2048, 2048) Float32) (jnp_ones (2048, 2048) Float32),
     Print [Str ''JITed (Second Call) Execution Time:'', Num (clock env 5 - clock env 4),
            Str ''seconds''],
     Print [Str ''Memory Usage:'',
            Num (real (rss env 5) / 1024 / 1024 - real (rss env 4) / 1024 / 1024), Str ''MB'']]"
  using trace_ok [OF assms]
  by (simp add: measured_steps_def prologue_def ones_input_def size_c_def)

text \<open>C6 in \<open>demo_env\<close>.\<close>

theorem three_measurements_in_order_witness:
  "no_fault demo_env \<and>
   filter benchmark_step (trace (final (run demo_env))) =
    [Print [Str ''JAX Device:'', Str ''cpu''],
     Invoke Matmul (jnp_ones (2048, 2048) Float32) (jnp_ones (2048, 2048) Float32),
     Print [Str ''Un-JITed Execution Time:'', Num (1 / 16), Str ''seconds''],
     Print [Str ''Memory Usage:'', Num 20, Str ''MB''],
     JaxJit Matmul,
     Invoke (Jit Matmul) (jnp_ones (2048, 2048) Float32) (jnp_ones (2048, 2048) Float32),
     Print [Str ''JITed (First Call) Execution Time:'', Num (1 / 16), Str ''seconds''],
     Print [Str ''Memory Usage:'', Num 20, Str ''MB''],
     Invoke (Jit Matmul) (jnp_ones (2048, 2048) Float32) (jnp_ones (2048, 2048) Float32),
     Print [Str ''JITed (Second Call) Execution Time:'', Num (1 / 16), Str ''seconds''],
     Print [Str ''Memory Usage:'', Num 20, Str ''MB'']]"
proof -
  have d: "no_fault demo_env"
    by (simp add: no_fault_def demo_env_def)
  show ?thesis
    using three_measurements_in_order [OF d] d by (simp add: demo_env_def)
qed

text \<open>
  Claim C7. No failure is handled. When the \<open>k\<close>-th operation of the framework (the call
  of the measured function when \<open>k\<close> is even, the wait for its result when \<open>k\<close> is odd) is
  the first to fail, with failure \<open>e\<close>, the run ends with that same \<open>e\<close>; what it has
  printed is the device line and the two lines of each measurement completed before,
  nothing for the measurement that failed; the failing operation is the last step of the
  run, and the measured function has been called once per measurement begun, so nothing
  was retried and nothing ran afterwards.
\<close>

theorem failure_propagates:
  assumes "k < 6" and "fault env k = Some e" and "\<forall>j<k. fault env j = None"
  shows "raised (run env) = Some e
       \<and> stdout (run env) = take (1 + 2 * (k div 2)) (expected_stdout env)
       \<and> length (outs (run env)) = k div 2
       \<and> length (filter is_invoke (trace (final (run env)))) = k div 2 + 1
       \<and> last (trace (final (run env))) =
           (if even k
            then Invoke (if k = 0 then Matmul else Jit Matmul)
                   (jnp_ones (2048, 2048) Float32) (jnp_ones (2048, 2048) Float32)
            else BlockUntilReady)"
proof -
  have prior: "fault env j = None" if "j < k" for j
    using assms(3) that by blast
  consider "k = 0" | "k = 1" | "k = 2" | "k = 3" | "k = 4" | "k = 5"
    using assms(1) by linarith
  then show ?thesis
  proof cases
    case 1
    then have "fault env 0 = Some e" using assms(2) by simp
    from run_fault_0 [OF this] 1 show ?thesis
      by (simp add: stdout_def prologue_def attempt_steps_def expected_stdout_def
            ones_input_def size_c_def)
  next
    case 2
    then have "fault env 0 = None" "fault env 1 = Some e"
      using assms(2) prior [of 0] by simp_all
    from run_fault_1 [OF this] 2 show ?thesis
      by (simp add: stdout_def prologue_def attempt_steps_def expected_stdout_def)
  next
    case 3
    then have "fault env 0 = None" "fault env 1 = None" "fault env 2 = Some e"
      using assms(2) prior [of 0] prior [of 1] by simp_all
    from run_fault_2 [OF this] 3 show ?thesis
      by (simp add: stdout_def prologue_def attempt_steps_def measured_steps_def
            expected_stdout_def ones_input_def size_c_def)
  next
    case 4
    then have "fault env 0 = None" "fault env 1 = None" "fault env 2 = None"
      "fault env 3 = Some e"
      using assms(2) prior [of 0] prior [of 1] prior [of 2] by simp_all
    from run_fault_3 [OF this] 4 show ?thesis
      by (simp add: stdout_def prologue_def attempt_steps_def measured_steps_def
            expected_stdout_def)
  next
    case 5
    then have "fault env 0 = None" "fault env 1 = None" "fault env 2 = None"
      "fault env 3 = None" "fault env 4 = Some e"
      using assms(2) prior [of 0] prior [of 1] prior [of 2] prior [of 3] by simp_all
    from run_fault_4 [OF this] 5 show ?thesis
      by (simp add: stdout_def prologue_def attempt_steps_def measured_steps_def
            expected_stdout_def ones_input_def size_c_def)
  next
    case 6
    then have "fault env 0 = None" "fault env 1 = None" "fault env 2 = None"
      "fault env 3 = None" "fault env 4 = None" "fault env 5 = Some e"
      using assms(2) prior [of 0] prior [of 1] prior [of 2] prior [of 3] prior [of 4]
      by simp_all
    from run_fault_5 [OF this] 6 show ?thesis
      by (simp add: stdout_def prologue_def attempt_steps_def measured_steps_def
            expected_stdout_def)
  qed
qed

text \<open>
  C7 in \<open>failing_env\<close>, where the first call through the wrapper fails: the run ends with
  that failure at that call, after the device line and the two lines of the first
  measurement.
\<close>

theorem failure_propagates_witness:
  "(2::nat) < 6 \<and> fault failing_env 2 = Some (XlaRuntimeError ''RESOURCE_EXHAUSTED'')
   \<and> fault failing_env 0 = None \<and> fault failing_env 1 = None
   \<and> raised (run failing_env) = Some (XlaRuntimeError ''RESOURCE_EXHAUSTED'')
   \<and> stdout (run failing_env) =
       [[Str ''JAX Device:'', Str ''cpu''],
        [Str ''Un-JITed Execution Time:'', Num (1 / 16), Str ''seconds''],
        [Str ''Memory Usage:'', Num 20, Str ''MB'']]
   \<and> last (trace (final (run failing_env))) =
       Invoke (Jit Matmul) (jnp_ones (2048, 2048) Float32) (jnp_ones (2048, 2048) Float32)"
proof -
  have a: "(2::nat) < 6" by simp
  have b: "fault failing_env 2 = Some (XlaRuntimeError ''RESOURCE_EXHAUSTED'')"
    by (simp add: failing_env_def)
  have c: "\<forall>j<2. fault failing_env j = None"
    by (simp add: failing_env_def)
  have d: "fault failing_env 0 = None" "fault failing_env 1 = None"
    by (simp_all add: failing_env_def)
  show ?thesis
    using failure_propagates [OF a b c] b d
    by (simp add: expected_stdout_def failing_env_def)
qed

text \<open>
  Claim C8, as stated: a run prints exactly four lines to standard output. It fails: a
  run without failure prints seven; in \<open>demo_env\<close> the number of lines is not four.
\<close>

theorem stdout_has_seven_lines_not_four: "length (stdout (run demo_env)) \<noteq> 4"
proof -
  have "stdout (run demo_env) = expected_stdout demo_env"
    using no_fault_demo_env by (rule stdout_ok)
  then show ?thesis
    by (simp add: expected_stdout_def)
qed

text \<open>
  Claim C8, amended: a run without failure prints exactly seven lines to standard
  output: the device line, then for each of the three measurements its execution-time
  line followed by its memory-usage line. The interpretive summary is not printed: it is
  the value of the last cell, shown by the notebook as that cell's result, and it is the
  last step of the run.
\<close>

theorem stdout_lines:
  assumes "no_fault env"
  shows "stdout (run env) =
     [[Str ''JAX Device:'', Str (platform env)],
      [Str ''Un-JITed Execution Time:'', Num (clock env 1 - clock env 0), Str ''seconds''],
      [Str ''Memory Usage:'',
       Num (real (rss env 1) / 1024 / 1024 - real (rss env 0) / 1024 / 1024), Str ''MB''],
      [Str ''JITed (First Call) Execution Time:'', Num (clock env 3 - clock env 2),
       Str ''seconds''],
      [Str ''Memory Usage:'',
       Num (real (rss env 3) / 1024 / 1024 - real (rss env 2) / 1024 / 1024), Str ''MB''],
      [Str ''JITed (Second Call) Execution Time:'', Num (clock env 5 - clock env 4),
       Str ''seconds''],
      [Str ''Memory Usage:'',
       Num (real (rss env 5) / 1024 / 1024 - real (rss env 4) / 1024 / 1024), Str ''MB'']]
    \<and> length (stdout (run env)) = 7
    \<and> last (trace (final (run env))) = Display interpretation_md"
  using stdout_ok [OF assms] trace_ok [OF assms]
  by (simp add: expected_stdout_def)

text \<open>C8 amended, in \<open>demo_env\<close>.\<close>

theorem stdout_lines_witness:
  "no_fault demo_env \<and>
   stdout (run demo_env) =
     [[Str ''JAX Device:'', Str ''cpu''],
      [Str ''Un-JITed Execution Time:'', Num (1 / 16), Str ''seconds''],
      [Str ''Memory Usage:'', Num 20, Str ''MB''],
      [Str ''JITed (First Call) Execution Time:'', Num (1 / 16), Str ''seconds''],
      [Str ''Memory Usage:'', Num 20, Str ''MB''],
      [Str ''JITed (Second Call) Execution Time:'', Num (1 / 16), Str ''seconds''],
      [Str ''Memory Usage:'', Num 20, Str ''MB'']]
   \<and> last (trace (final (run demo_env))) = Display interpretation_md"
proof -
  have d: "no_fault demo_env"
    by (simp add: no_fault_def demo_env_def)
  show ?thesis
    using stdout_lines [OF d] d by (simp add: demo_env_def)
qed

text \<open>
  Claim C9. The three measured calls apply the matrix product to the same two
  arguments, each the 2048 by 2048 \<open>float32\<close> array of ones; the two arrays are built
  once, before the first measurement begins, and no other array is built afterwards; so
  in a run without failure each of the three calls yields the 2048 by 2048 \<open>float32\<close>
  array whose every entry is 2048. (The wrapper returns what the wrapped function
  returns: that is how \<open>jax.jit\<close> is read here.)
\<close>

theorem same_operands_same_product:
  assumes "no_fault env"
  shows "outs (run env) =
           replicate 3 \<lparr>shape = (2048, 2048), dtype = Float32,
                        elems = replicate 2048 (replicate 2048 2048)\<rparr>
    \<and> filter is_invoke (trace (final (run env))) =
         [Invoke Matmul (jnp_ones (2048, 2048) Float32) (jnp_ones (2048, 2048) Float32),
          Invoke (Jit Matmul) (jnp_ones (2048, 2048) Float32) (jnp_ones (2048, 2048) Float32),
          Invoke (Jit Matmul) (jnp_ones (2048, 2048) Float32) (jnp_ones (2048, 2048) Float32)]
    \<and> filter is_ones (trace (final (run env))) =
         [JnpOnes (2048, 2048) Float32, JnpOnes (2048, 2048) Float32]
    \<and> takeWhile (\<lambda>e. e \<noteq> GcCollect) (trace (final (run env))) =
         [Print [Str ''JAX Device:'', Str (platform env)],
          JnpOnes (2048, 2048) Float32, JnpOnes (2048, 2048) Float32]"
proof -
  have "outs (run env) = [ones_product, ones_product, ones_product]"
    by (simp add: run_ok [OF assms])
  then have o: "outs (run env) =
           replicate 3 \<lparr>shape = (2048, 2048), dtype = Float32,
                        elems = replicate 2048 (replicate 2048 2048)\<rparr>"
    by (simp add: ones_product_def size_c_def numeral_3_eq_3)
  show ?thesis
    using trace_ok [OF assms] o
    by (simp add: measured_steps_def prologue_def ones_input_def size_c_def)
qed

text \<open>C9 in \<open>demo_env\<close>.\<close>

theorem same_operands_same_product_witness:
  "no_fault demo_env \<and>
   outs (run demo_env) =
     replicate 3 \<lparr>shape = (2048, 2048), dtype = Float32,
                  elems = replicate 2048 (replicate 2048 2048)\<rparr>"
proof -
  have d: "no_fault demo_env"
    by (simp add: no_fault_def demo_env_def)
  show ?thesis
    using same_operands_same_product [OF d] d by simp
qed

text \<open>
  Claim C10. The memory figure a measurement reports is the difference, second minus
  first, of two readings of the resident set size, each divided by 1024 twice; nothing
  is applied to the difference. It can be negative, and is then printed as it is: in
  \<open>shrinking_env\<close> each of the three figures printed is \<open>-1\<close>.
\<close>

theorem memory_delta_unclamped:
  assumes "no_fault env"
  shows "reported ''MB'' (run env) =
           [real (rss env 1) / 1024 / 1024 - real (rss env 0) / 1024 / 1024,
            real (rss env 3) / 1024 / 1024 - real (rss env 2) / 1024 / 1024,
            real (rss env 5) / 1024 / 1024 - real (rss env 4) / 1024 / 1024]
       \<and> reported ''MB'' (run shrinking_env) = [- 1, - 1, - 1]"
proof -
  have gen: "reported ''MB'' (run e) =
           [real (rss e 1) / 1024 / 1024 - real (rss e 0) / 1024 / 1024,
            real (rss e 3) / 1024 / 1024 - real (rss e 2) / 1024 / 1024,
            real (rss e 5) / 1024 / 1024 - real (rss e 4) / 1024 / 1024]"
    if "no_fault e" for e
    using stdout_ok [OF that]
    by (simp add: reported_def expected_stdout_def List.map_filter_simps)
  have "no_fault shrinking_env"
    by (simp add: no_fault_def shrinking_env_def)
  then have "reported ''MB'' (run shrinking_env) = [- 1, - 1, - 1]"
    by (simp add: gen) (simp add: shrinking_env_def)
  with gen [OF assms] show ?thesis by simp
qed

text \<open>C10 in \<open>demo_env\<close>, where the process grows by 20 MiB in each measurement.\<close>

theorem memory_delta_unclamped_witness:
  "no_fault demo_env \<and> reported ''MB'' (run demo_env) = [20, 20, 20]
   \<and> reported ''MB'' (run shrinking_env) = [- 1, - 1, - 1]"
proof -
  have d: "no_fault demo_env"
    by (simp add: no_fault_def demo_env_def)
  show ?thesis
    using memory_delta_unclamped [OF d] d by (simp add: demo_env_def)
qed

end
